theory Spec2Isabelle
  imports Main "HOL-Library.AList" "HOL-Library.Multiset"
begin

section \<open>JavaScript values\<close>

text \<open>
  The handlers of \<^verbatim>\<open>api/index.js\<close> work on the parsed JSON body of a request and on
  the objects they read from the store. A value is one of the JSON kinds, or
  \<^verbatim>\<open>undefined\<close>, which is what reading a property an object does not have gives.
  A string is the list of the bytes of its UTF-8 form. A number \<open>JNum n\<close> is the
  double nearest to the integer \<open>n\<close>, which is what \<^verbatim>\<open>JSON.parse\<close> makes of the
  literal \<open>n\<close> (within the range of the doubles); numbers with a fractional part have
  no term. An object is an association
  list of its own properties, read with \<^const>\<open>map_of\<close>.
\<close>

datatype jsval =
    JUndefined
  | JNull
  | JBool bool
  | JNum int
  | JStr string
  | JArr "jsval list"
  | JObj "(string \<times> jsval) list"

type_synonym obj = "(string \<times> jsval) list"

text \<open>Truthiness, as \<^verbatim>\<open>!x\<close> and \<^verbatim>\<open>x || y\<close> test it.\<close>

fun truthy :: "jsval \<Rightarrow> bool" where
  "truthy JUndefined = False"
| "truthy JNull = False"
| "truthy (JBool b) = b"
| "truthy (JNum n) = (n \<noteq> 0)"
| "truthy (JStr s) = (s \<noteq> [])"
| "truthy (JArr xs) = True"
| "truthy (JObj ps) = True"

text \<open>Property access, as destructuring \<^verbatim>\<open>req.body\<close> does it.\<close>

definition get_prop :: "obj \<Rightarrow> string \<Rightarrow> jsval" where
  "get_prop ob k = (case map_of ob k of None \<Rightarrow> JUndefined | Some v \<Rightarrow> v)"

subsection \<open>Doubles that hold an integer\<close>

definition digit_char :: "int \<Rightarrow> char" where
  "digit_char d = ''0123456789'' ! nat (d mod 10)"

text \<open>The decimal digits of a natural number.\<close>

function show_digits :: "int \<Rightarrow> string" where
  "show_digits n = (if n < 10 then [digit_char n] else show_digits (n div 10) @ [digit_char n])"
  by pat_completeness auto
termination
  by (relation "measure nat") auto

function bit_length :: "int \<Rightarrow> nat" where
  "bit_length n = (if n \<le> 0 then 0 else Suc (bit_length (n div 2)))"
  by pat_completeness auto
termination
  by (relation "measure nat") auto

text \<open>
  The double nearest to a natural number: the number itself while it has at most 53
  bits, otherwise its leading 53 bits rounded to nearest, ties to even. \<open>None\<close> is
  \<^verbatim>\<open>Infinity\<close>: the rounded value does not fit under \<open>2 ^ 1024\<close>.
\<close>

definition round_double :: "int \<Rightarrow> int option" where
  "round_double n =
     (let b = bit_length n
      in if b \<le> 53 then Some n
         else
           let sh = b - 53;
               q = n div 2 ^ sh;
               r = n mod 2 ^ sh;
               half = 2 ^ (sh - 1);
               q' = (if half < r \<or> (r = half \<and> odd q) then q + 1 else q)
           in if 2 ^ 1024 \<le> q' * 2 ^ sh then None else Some (q' * 2 ^ sh))"

text \<open>
  The digits \<^verbatim>\<open>Number::toString\<close> prints for the double \<open>x\<close>: the multiple of the
  greatest power of ten that still rounds to \<open>x\<close>, the nearer one to \<open>x\<close> if two
  do, the one with the even digit if they are equally near. \<open>shortest x p\<close> tries
  the powers from \<open>10 ^ p\<close> down.
\<close>

primrec shortest :: "int \<Rightarrow> nat \<Rightarrow> int" where
  "shortest x 0 = x"
| "shortest x (Suc p) =
     (let lo = x div 10 ^ Suc p * 10 ^ Suc p;
          hi = lo + 10 ^ Suc p;
          lo_ok = (round_double lo = Some x);
          hi_ok = (round_double hi = Some x)
      in if lo_ok \<and> hi_ok
         then (if x - lo < hi - x then lo
               else if hi - x < x - lo then hi
               else if even (x div 10 ^ Suc p) then lo else hi)
         else if lo_ok then lo
         else if hi_ok then hi
         else shortest x p)"

definition strip_zeros :: "string \<Rightarrow> string" where
  "strip_zeros s = rev (dropWhile (\<lambda>c. c = CHR ''0'') (rev s))"

text \<open>
  \<^verbatim>\<open>Number::toString\<close> of the double nearest to a natural number: its digits in full
  up to 21 of them, and from \<^verbatim>\<open>1e+21\<close> on the exponent form.
\<close>

definition number_string :: "int \<Rightarrow> string" where
  "number_string m =
     (case round_double m of
        None \<Rightarrow> ''Infinity''
      | Some x \<Rightarrow>
          let c = shortest x (length (show_digits x) - 1);
              n = length (show_digits c);
              s = strip_zeros (show_digits c)
          in if n \<le> 21 then show_digits c
             else if length s = 1 then s @ ''e+'' @ show_digits (int n - 1)
             else hd s # ''.'' @ tl s @ ''e+'' @ show_digits (int n - 1))"

subsection \<open>ToString\<close>

text \<open>
  The string a template literal interpolates and \<^verbatim>\<open>parseInt\<close> starts from, or
  \<open>None\<close> when the conversion throws a \<^verbatim>\<open>TypeError\<close>. An array is joined with
  commas, a \<^verbatim>\<open>null\<close> or \<^verbatim>\<open>undefined\<close> element giving the empty string. An object
  parsed from JSON is \<^verbatim>\<open>[object Object]\<close>, unless it has a property of its own named
  \<^verbatim>\<open>toString\<close>: that property hides the inherited method and is not a function, and
  \<^verbatim>\<open>valueOf\<close> gives no primitive, so the conversion throws.
\<close>

fun to_string :: "jsval \<Rightarrow> string option"
  and join_elems :: "jsval list \<Rightarrow> string option"
  and elem_string :: "jsval \<Rightarrow> string option" where
  "to_string JUndefined = Some ''undefined''"
| "to_string JNull = Some ''null''"
| "to_string (JBool b) = Some (if b then ''true'' else ''false'')"
| "to_string (JNum n) =
     Some (if n < 0 then CHR ''-'' # number_string (- n) else number_string n)"
| "to_string (JStr s) = Some s"
| "to_string (JArr xs) = join_elems xs"
| "to_string (JObj ps) =
     (if ''toString'' \<in> fst ` set ps then None else Some ''[object Object]'')"
| "join_elems [] = Some []"
| "join_elems [x] = elem_string x"
| "join_elems (x # y # ys) =
     (case elem_string x of
        None \<Rightarrow> None
      | Some a \<Rightarrow>
          (case join_elems (y # ys) of None \<Rightarrow> None | Some b \<Rightarrow> Some (a @ '','' @ b)))"
| "elem_string JUndefined = Some []"
| "elem_string JNull = Some []"
| "elem_string (JBool b) = to_string (JBool b)"
| "elem_string (JNum n) = to_string (JNum n)"
| "elem_string (JStr s) = to_string (JStr s)"
| "elem_string (JArr xs) = to_string (JArr xs)"
| "elem_string (JObj ps) = to_string (JObj ps)"

subsection \<open>parseInt\<close>

text \<open>What \<^verbatim>\<open>parseInt\<close> returns: a double that holds an integer, or one of the three others.\<close>

datatype jsnumber = Num int | NaN | PosInfinity | NegInfinity

text \<open>
  Leading white space and line terminators, each in its UTF-8 form: the six of ASCII,
  the no-break space, the byte order mark, and the space separators and line and
  paragraph separators of Unicode.
\<close>

definition is_space1 :: "char \<Rightarrow> bool" where
  "is_space1 a = (a \<in> set [CHR 0x09, CHR 0x0A, CHR 0x0B, CHR 0x0C, CHR 0x0D, CHR 0x20])"

definition is_space2 :: "char \<Rightarrow> char \<Rightarrow> bool" where
  "is_space2 a b = (a = CHR 0xC2 \<and> b = CHR 0xA0)"

definition is_space3 :: "char \<Rightarrow> char \<Rightarrow> char \<Rightarrow> bool" where
  "is_space3 a b c =
     ([a, b, c] \<in> set
        [[CHR 0xE1, CHR 0x9A, CHR 0x80],
         [CHR 0xE2, CHR 0x80, CHR 0x80], [CHR 0xE2, CHR 0x80, CHR 0x81],
         [CHR 0xE2, CHR 0x80, CHR 0x82], [CHR 0xE2, CHR 0x80, CHR 0x83],
         [CHR 0xE2, CHR 0x80, CHR 0x84], [CHR 0xE2, CHR 0x80, CHR 0x85],
         [CHR 0xE2, CHR 0x80, CHR 0x86], [CHR 0xE2, CHR 0x80, CHR 0x87],
         [CHR 0xE2, CHR 0x80, CHR 0x88], [CHR 0xE2, CHR 0x80, CHR 0x89],
         [CHR 0xE2, CHR 0x80, CHR 0x8A], [CHR 0xE2, CHR 0x80, CHR 0xA8],
         [CHR 0xE2, CHR 0x80, CHR 0xA9], [CHR 0xE2, CHR 0x80, CHR 0xAF],
         [CHR 0xE2, CHR 0x81, CHR 0x9F], [CHR 0xE3, CHR 0x80, CHR 0x80],
         [CHR 0xEF, CHR 0xBB, CHR 0xBF]])"

fun skip_space :: "string \<Rightarrow> string" where
  "skip_space (a # b # c # s) =
     (if is_space1 a then skip_space (b # c # s)
      else if is_space2 a b then skip_space (c # s)
      else if is_space3 a b c then skip_space s
      else a # b # c # s)"
| "skip_space [a, b] =
     (if is_space1 a then skip_space [b] else if is_space2 a b then [] else [a, b])"
| "skip_space [a] = (if is_space1 a then [] else [a])"
| "skip_space [] = []"

definition digit_val :: "char \<Rightarrow> nat option" where
  "digit_val c =
     (let n = (of_char c :: nat) in
      if 48 \<le> n \<and> n \<le> 57 then Some (n - 48)
      else if 97 \<le> n \<and> n \<le> 122 then Some (n - 87)
      else if 65 \<le> n \<and> n \<le> 90 then Some (n - 55)
      else None)"

definition is_digit :: "nat \<Rightarrow> char \<Rightarrow> bool" where
  "is_digit R c = (case digit_val c of None \<Rightarrow> False | Some d \<Rightarrow> d < R)"

definition digit_of :: "char \<Rightarrow> int" where
  "digit_of c = (case digit_val c of None \<Rightarrow> 0 | Some d \<Rightarrow> int d)"

definition strip_sign :: "string \<Rightarrow> int \<times> string" where
  "strip_sign s =
     (case s of
        [] \<Rightarrow> (1, [])
      | c # r \<Rightarrow> if c = CHR ''-'' then (- 1, r) else if c = CHR ''+'' then (1, r) else (1, s))"

definition strip_prefix :: "string \<Rightarrow> nat \<times> string" where
  "strip_prefix s =
     (if take 2 s = ''0x'' \<or> take 2 s = ''0X'' then (16, drop 2 s) else (10, s))"

text \<open>
  \<^verbatim>\<open>parseInt\<close> with no radix, on a string: leading white space skipped, an optional
  sign, an optional \<^verbatim>\<open>0x\<close> prefix selecting radix 16, then the longest run of digits
  of the radix. No digit at all gives \<^verbatim>\<open>NaN\<close>; otherwise the result is the double
  nearest to the value of the digits, with the sign (a negative zero is zero here).
\<close>

definition parseInt_string :: "string \<Rightarrow> jsnumber" where
  "parseInt_string inputString =
     (let (sign, s) = strip_sign (skip_space inputString);
          (R, s') = strip_prefix s;
          z = takeWhile (is_digit R) s'
      in if z = [] then NaN
         else
           (case round_double (foldl (\<lambda>a c. a * int R + digit_of c) 0 z) of
              None \<Rightarrow> if sign < 0 then NegInfinity else PosInfinity
            | Some x \<Rightarrow> Num (sign * x)))"

text \<open>\<^verbatim>\<open>parseInt(v)\<close>: \<open>None\<close> when turning \<open>v\<close> into a string throws.\<close>

definition parseInt :: "jsval \<Rightarrow> jsnumber option" where
  "parseInt v = map_option parseInt_string (to_string v)"

subsection \<open>JSON.stringify\<close>

text \<open>
  What a handler holds in a property of an object it builds: a value of the body, or a
  number it computed. The client serialises the object it is given to \<^verbatim>\<open>set\<close>, and
  \<^verbatim>\<open>res.json\<close> the object it sends: a property holding \<^verbatim>\<open>undefined\<close> is left out,
  and a number that is \<^verbatim>\<open>NaN\<close> or infinite becomes \<^verbatim>\<open>null\<close>. Values of the body
  and of the store are JSON already.
\<close>

datatype held = Value jsval | Number jsnumber

definition number_json :: "jsnumber \<Rightarrow> jsval" where
  "number_json x = (case x of Num n \<Rightarrow> JNum n | _ \<Rightarrow> JNull)"

definition json_prop :: "string \<Rightarrow> held \<Rightarrow> obj" where
  "json_prop k h =
     (case h of
        Value v \<Rightarrow> if v = JUndefined then [] else [(k, v)]
      | Number x \<Rightarrow> [(k, number_json x)])"

definition JSON_stringify :: "(string \<times> held) list \<Rightarrow> obj" where
  "JSON_stringify ps = concat (map (\<lambda>(k, h). json_prop k h) ps)"

section \<open>The key-value store\<close>

text \<open>
  The handlers share one client, \<^verbatim>\<open>kv\<close>. They use it for two things: JSON objects
  stored under string keys, and one set of strings stored under \<^verbatim>\<open>ASIGNATURAS_INDEX_KEY\<close>.
  The state keeps the two apart: \<open>records\<close> is the list of the stored objects with
  their keys, in the order a scan of the keyspace meets them, and \<open>index\<close> lists the
  members of the set in the order \<^verbatim>\<open>smembers\<close> returns them. No key a handler builds
  for a record is the key of the set (lemma \<open>key_not_index\<close> below), so the two never
  meet in the client's single keyspace.
\<close>

record kvstate =
  records :: "(string \<times> obj) list"
  index :: "string list"

definition ASIGNATURA_PREFIX :: string where
  "ASIGNATURA_PREFIX = ''asignatura:''"

definition ASIGNATURAS_INDEX_KEY :: string where
  "ASIGNATURAS_INDEX_KEY = ''index:asignaturas''"

definition empty_store :: kvstate where
  "empty_store = \<lparr>records = [], index = []\<rparr>"

text \<open>
  The keys of the whole keyspace, as a scan meets them: the keys of the records, and
  the key of the set while the set has a member.
\<close>

definition keyspace :: "kvstate \<Rightarrow> string list" where
  "keyspace st = map fst (records st) @ (if index st = [] then [] else [ASIGNATURAS_INDEX_KEY])"

text \<open>\<^verbatim>\<open>kv.exists(key)\<close>: the number of the given keys that exist, of whatever kind.\<close>

definition kv_exists :: "string \<Rightarrow> kvstate \<Rightarrow> nat" where
  "kv_exists key st = (if key \<in> set (keyspace st) then 1 else 0)"

text \<open>
  \<^verbatim>\<open>get\<close>, \<^verbatim>\<open>set\<close>, \<^verbatim>\<open>del\<close> and \<^verbatim>\<open>mget\<close> are only ever called with keys of
  records. \<^verbatim>\<open>kv.get(key)\<close> gives the stored object, or \<^verbatim>\<open>null\<close> (\<open>None\<close>); an object
  is truthy, so a test \<^verbatim>\<open>!x\<close> of the result is a test for \<^verbatim>\<open>null\<close>.
\<close>

definition kv_get :: "string \<Rightarrow> kvstate \<Rightarrow> obj option" where
  "kv_get key st = map_of (records st) key"

text \<open>
  \<^verbatim>\<open>kv.set(key, value)\<close> stores the JSON text of the value and \<^verbatim>\<open>kv.get\<close> parses
  it back: \<open>kv_set\<close> takes the object as serialised.
\<close>

definition kv_set :: "string \<Rightarrow> obj \<Rightarrow> kvstate \<Rightarrow> kvstate" where
  "kv_set key v st = st\<lparr>records := AList.update key v (records st)\<rparr>"

text \<open>\<^verbatim>\<open>kv.del(key)\<close>: removes the key and returns how many keys it removed.\<close>

definition kv_del :: "string \<Rightarrow> kvstate \<Rightarrow> nat \<times> kvstate" where
  "kv_del key st =
     (if map_of (records st) key = None then 0 else 1,
      st\<lparr>records := AList.delete key (records st)\<rparr>)"

text \<open>\<^verbatim>\<open>kv.mget(...keys)\<close>: one result for each key, in order, \<^verbatim>\<open>null\<close> for a missing one.\<close>

definition kv_mget :: "string list \<Rightarrow> kvstate \<Rightarrow> obj option list" where
  "kv_mget keys st = map (\<lambda>k. map_of (records st) k) keys"

text \<open>
  \<^verbatim>\<open>sadd\<close>, \<^verbatim>\<open>srem\<close> and \<^verbatim>\<open>smembers\<close> on the set under \<^verbatim>\<open>ASIGNATURAS_INDEX_KEY\<close>,
  the only set the handlers touch.
\<close>

definition kv_sadd :: "string \<Rightarrow> kvstate \<Rightarrow> kvstate" where
  "kv_sadd member st =
     st\<lparr>index := (if member \<in> set (index st) then index st else index st @ [member])\<rparr>"

definition kv_srem :: "string \<Rightarrow> kvstate \<Rightarrow> kvstate" where
  "kv_srem member st = st\<lparr>index := removeAll member (index st)\<rparr>"

definition kv_smembers :: "kvstate \<Rightarrow> string list" where
  "kv_smembers st = index st"

text \<open>
  Glob matching of \<^verbatim>\<open>scanIterator({ match })\<close>: \<^verbatim>\<open>*\<close> stands for any run of
  characters and \<^verbatim>\<open>?\<close> for one character; every other character stands for itself
  (classes and escapes do not occur in the pattern the program uses).
\<close>

fun glob_match :: "string \<Rightarrow> string \<Rightarrow> bool" where
  "glob_match [] s = (s = [])"
| "glob_match (p # ps) [] = (p = CHR ''*'' \<and> glob_match ps [])"
| "glob_match (p # ps) (c # cs) =
     (if p = CHR ''*'' then glob_match ps (c # cs) \<or> glob_match (p # ps) cs
      else (p = CHR ''?'' \<or> p = c) \<and> glob_match ps cs)"

definition kv_scan :: "string \<Rightarrow> kvstate \<Rightarrow> string list" where
  "kv_scan pattern st = filter (glob_match pattern) (keyspace st)"

text \<open>The calls a handler makes on the client, in order; a transaction is one call.\<close>

datatype kvcall =
    Exists string
  | Get string
  | Set string obj
  | Del string
  | Sadd string string
  | Srem string string
  | Smembers string
  | Mget "string list"
  | Scan string
  | Multi "kvcall list"

fun is_write :: "kvcall \<Rightarrow> bool" where
  "is_write (Set k v) = True"
| "is_write (Del k) = True"
| "is_write (Sadd s m) = True"
| "is_write (Srem s m) = True"
| "is_write (Multi cs) = (\<exists>c \<in> set cs. is_write c)"
| "is_write c = False"

text \<open>A call that reads the stored records (the set is not one of them).\<close>

fun is_record_read :: "kvcall \<Rightarrow> bool" where
  "is_record_read (Exists k) = True"
| "is_record_read (Get k) = True"
| "is_record_read (Mget ks) = True"
| "is_record_read (Scan p) = True"
| "is_record_read (Multi cs) = (\<exists>c \<in> set cs. is_record_read c)"
| "is_record_read c = False"

section \<open>The handlers of api/index.js\<close>

text \<open>
  A reply is the status and the JSON sent, if any; \<open>Unanswered\<close> is the outcome of
  a handler that throws before it replies: its promise rejects and it sends nothing.
  A handler takes what it reads from the request and the store, and returns the reply,
  the store afterwards and the calls it made. \<^verbatim>\<open>nanoid()\<close> is a parameter: the identifier it happened to generate.
  The body is the object \<^verbatim>\<open>express.json()\<close> parsed, and \<open>cod\<close> of a route is the
  string of \<^verbatim>\<open>req.params\<close>.
\<close>

datatype reply = Reply (status: nat) (payload: "jsval option") | Unanswered

definition error_reply :: "nat \<Rightarrow> string \<Rightarrow> reply" where
  "error_reply code msg = Reply code (Some (JObj [(''error'', JStr msg)]))"

definition null_or_obj :: "obj option \<Rightarrow> jsval" where
  "null_or_obj r = (case r of None \<Rightarrow> JNull | Some ob \<Rightarrow> JObj ob)"

text \<open>\<^verbatim>\<open>{ ...a, ...b }\<close>: the properties of \<open>a\<close>, then each property of \<open>b\<close> assigned in turn.\<close>

definition spread :: "obj \<Rightarrow> obj \<Rightarrow> obj" where
  "spread a b = fold (\<lambda>(k, v). AList.update k v) b a"

text \<open>
  The object literal of the handler, given the two numbers \<^verbatim>\<open>parseInt\<close> returned.
\<close>

definition newAsignatura :: "string \<Rightarrow> obj \<Rightarrow> jsnumber \<Rightarrow> jsnumber \<Rightarrow> (string \<times> held) list" where
  "newAsignatura nid body sem uc =
     [(''id'', Value (JStr nid)),
      (''carrera'', Value (get_prop body ''carrera'')),
      (''sem'', Number sem),
      (''cod'', Value (get_prop body ''cod'')),
      (''asig'', Value (get_prop body ''asig'')),
      (''uc'', Number uc),
      (''requisitos'',
         Value (if truthy (get_prop body ''requisitos'')
                then get_prop body ''requisitos'' else JArr []))]"

text \<open>
  \<^verbatim>\<open>POST /asignaturas\<close>. The template literal of the key and the two calls of
  \<^verbatim>\<open>parseInt\<close> can throw; the handler catches nothing.
\<close>

definition post_asignaturas :: "string \<Rightarrow> obj \<Rightarrow> kvstate \<Rightarrow> reply \<times> kvstate \<times> kvcall list" where
  "post_asignaturas nid body st =
     (if \<not> truthy (get_prop body ''carrera'') \<or> \<not> truthy (get_prop body ''sem'') \<or>
         \<not> truthy (get_prop body ''cod'') \<or> \<not> truthy (get_prop body ''asig'') \<or>
         \<not> truthy (get_prop body ''uc'')
      then (error_reply 400 ''Faltan campos obligatorios.'', st, [])
      else
        case to_string (get_prop body ''cod'') of
          None \<Rightarrow> (Unanswered, st, [])
        | Some cod \<Rightarrow>
            let key = ASIGNATURA_PREFIX @ cod;
                existing = kv_exists key st
            in if existing \<noteq> 0
               then (error_reply 409
                       (''La asignatura con el c'' @ [CHR 0xC3, CHR 0xB3] @ ''digo '' @
                        cod @ '' ya existe.''),
                     st, [Exists key])
               else
                 case parseInt (get_prop body ''sem'') of
                   None \<Rightarrow> (Unanswered, st, [Exists key])
                 | Some sem \<Rightarrow>
                     (case parseInt (get_prop body ''uc'') of
                        None \<Rightarrow> (Unanswered, st, [Exists key])
                      | Some uc \<Rightarrow>
                          let stored = JSON_stringify (newAsignatura nid body sem uc)
                          in (Reply 201 (Some (JObj stored)),
                              kv_sadd key (kv_set key stored st),
                              [Exists key,
                               Multi [Set key stored, Sadd ASIGNATURAS_INDEX_KEY key]])))"

text \<open>\<^verbatim>\<open>GET /asignaturas\<close>\<close>

definition get_asignaturas :: "kvstate \<Rightarrow> reply \<times> kvstate \<times> kvcall list" where
  "get_asignaturas st =
     (let keys = kv_smembers st
      in if keys = []
         then (Reply 200 (Some (JArr [])), st, [Smembers ASIGNATURAS_INDEX_KEY])
         else (Reply 200 (Some (JArr (map null_or_obj (kv_mget keys st)))), st,
               [Smembers ASIGNATURAS_INDEX_KEY, Mget keys]))"

text \<open>\<^verbatim>\<open>GET /asignaturas/:cod\<close>\<close>

definition get_asignatura :: "string \<Rightarrow> kvstate \<Rightarrow> reply \<times> kvstate \<times> kvcall list" where
  "get_asignatura cod st =
     (let key = ASIGNATURA_PREFIX @ cod
      in case kv_get key st of
           None \<Rightarrow> (error_reply 404 ''Asignatura no encontrada.'', st, [Get key])
         | Some asignatura \<Rightarrow> (Reply 200 (Some (JObj asignatura)), st, [Get key]))"

text \<open>\<^verbatim>\<open>PUT /asignaturas/:cod\<close>\<close>

definition put_asignatura :: "string \<Rightarrow> obj \<Rightarrow> kvstate \<Rightarrow> reply \<times> kvstate \<times> kvcall list" where
  "put_asignatura cod body st =
     (let key = ASIGNATURA_PREFIX @ cod
      in case kv_get key st of
           None \<Rightarrow> (error_reply 404 ''Asignatura no encontrada.'', st, [Get key])
         | Some existingAsignatura \<Rightarrow>
             let updatedAsignatura = spread existingAsignatura body
             in (Reply 200 (Some (JObj updatedAsignatura)),
                 kv_set key updatedAsignatura st,
                 [Get key, Set key updatedAsignatura]))"

text \<open>\<^verbatim>\<open>DELETE /asignaturas/:cod\<close>\<close>

definition delete_asignatura :: "string \<Rightarrow> kvstate \<Rightarrow> reply \<times> kvstate \<times> kvcall list" where
  "delete_asignatura cod st =
     (let key = ASIGNATURA_PREFIX @ cod;
          (delResult, st1) = kv_del key st;
          st2 = kv_srem key st1;
          calls = [Multi [Del key, Srem ASIGNATURAS_INDEX_KEY key]]
      in if delResult = 0
         then (error_reply 404 ''Asignatura no encontrada.'', st2, calls)
         else (Reply 204 None, st2, calls))"

section \<open>The earlier listing, by a scan of the keyspace\<close>

definition KEY_PREFIX :: string where
  "KEY_PREFIX = ''asignatura:''"

text \<open>\<^verbatim>\<open>GET /asignaturas\<close> of the version without the index.\<close>

definition get_asignaturas_scan :: "kvstate \<Rightarrow> reply \<times> kvstate \<times> kvcall list" where
  "get_asignaturas_scan st =
     (let keys = kv_scan (KEY_PREFIX @ ''*'') st
      in if length keys = 0
         then (Reply 200 (Some (JArr [])), st, [Scan (KEY_PREFIX @ ''*'')])
         else (Reply 200 (Some (JArr (map null_or_obj (kv_mget keys st)))), st,
               [Scan (KEY_PREFIX @ ''*''), Mget keys]))"

section \<open>Sequences of requests\<close>

datatype request =
    Create string obj
  | Update string obj
  | Delete string

fun step :: "kvstate \<Rightarrow> request \<Rightarrow> kvstate" where
  "step st (Create nid body) = fst (snd (post_asignaturas nid body st))"
| "step st (Update cod body) = fst (snd (put_asignatura cod body st))"
| "step st (Delete cod) = fst (snd (delete_asignatura cod st))"

definition run :: "request list \<Rightarrow> kvstate" where
  "run reqs = foldl step empty_store reqs"

section \<open>Predicates of the properties\<close>

text \<open>The index and the stored records name the same keys.\<close>

definition consistent :: "kvstate \<Rightarrow> bool" where
  "consistent st = (set (index st) = set (map fst (records st)))"

text \<open>A set has each member once, and a keyspace has each key once.\<close>

definition well_formed :: "kvstate \<Rightarrow> bool" where
  "well_formed st = (distinct (index st) \<and> distinct (map fst (records st)))"

text \<open>The properties the first test of \<^verbatim>\<open>POST /asignaturas\<close> reads.\<close>

definition required_fields :: "string list" where
  "required_fields = [''carrera'', ''sem'', ''cod'', ''asig'', ''uc'']"

definition required_present :: "obj \<Rightarrow> bool" where
  "required_present body = list_all (\<lambda>f. truthy (get_prop body f)) required_fields"

definition no_write :: "kvcall list \<Rightarrow> bool" where
  "no_write calls = (filter is_write calls = [])"

definition no_record_read :: "kvcall list \<Rightarrow> bool" where
  "no_record_read calls = (filter is_record_read calls = [])"

text \<open>A property of the record stored for a code, if there is one.\<close>

definition stored_prop :: "string \<Rightarrow> string \<Rightarrow> kvstate \<Rightarrow> jsval option" where
  "stored_prop cod f st =
     (case kv_get (ASIGNATURA_PREFIX @ cod) st of None \<Rightarrow> None | Some r \<Rightarrow> Some (get_prop r f))"

text \<open>The elements of the array a listing sends.\<close>

definition listed :: "reply \<Rightarrow> jsval list" where
  "listed r = (case payload r of Some (JArr xs) \<Rightarrow> xs | _ \<Rightarrow> [])"

definition has_prefix :: "string \<Rightarrow> string \<Rightarrow> bool" where
  "has_prefix p s = (take (length p) s = p)"

text \<open>Every key of a stored record begins with the prefix the scan matches.\<close>

definition prefixed :: "kvstate \<Rightarrow> bool" where
  "prefixed st = list_all (has_prefix KEY_PREFIX) (map fst (records st))"

text \<open>
  A string begins a number when, after white space, sign and radix prefix, its next
  character is a digit of the radix; a value is numeric-coercible when it has a string
  and the string begins a number.
\<close>

definition leading_digit :: "string \<Rightarrow> bool" where
  "leading_digit str =
     (let (sign, s) = strip_sign (skip_space str);
          (R, s') = strip_prefix s
      in case s' of [] \<Rightarrow> False | c # cs \<Rightarrow> is_digit R c)"

definition numeric_coercible :: "jsval \<Rightarrow> bool" where
  "numeric_coercible v = (case to_string v of None \<Rightarrow> False | Some str \<Rightarrow> leading_digit str)"

definition is_integer :: "jsval \<Rightarrow> bool" where
  "is_integer v = (case v of JNum n \<Rightarrow> True | _ \<Rightarrow> False)"

subsection \<open>Example requests and stores\<close>

definition cs301 :: obj where
  "cs301 = [(''carrera'', JStr ''CS''), (''sem'', JNum 3), (''cod'', JStr ''CS301''),
            (''asig'', JStr ''Algorithms''), (''uc'', JNum 4)]"

definition zero_sem :: obj where
  "zero_sem = [(''carrera'', JStr ''CS''), (''sem'', JNum 0), (''cod'', JStr ''CS100''),
               (''asig'', JStr ''Intro''), (''uc'', JNum 4)]"

definition abc_sem :: obj where
  "abc_sem = [(''carrera'', JStr ''CS''), (''sem'', JStr ''abc''), (''cod'', JStr ''CS100''),
              (''asig'', JStr ''Intro''), (''uc'', JStr ''4'')]"

text \<open>The record of \<open>cs301\<close> as stored and sent, and the store after its creation.\<close>

definition cs301_record :: obj where
  "cs301_record =
     [(''id'', JStr ''V1StGXR8_Z5jdHi6B-myT''), (''carrera'', JStr ''CS''), (''sem'', JNum 3),
      (''cod'', JStr ''CS301''), (''asig'', JStr ''Algorithms''), (''uc'', JNum 4),
      (''requisitos'', JArr [])]"

definition store1 :: kvstate where
  "store1 = fst (snd (post_asignaturas ''V1StGXR8_Z5jdHi6B-myT'' cs301 empty_store))"

text \<open>A store whose index names a key that holds no record.\<close>

definition stale_store :: kvstate where
  "stale_store = \<lparr>records = [], index = [''asignatura:CS999'']\<rparr>"

definition drifted_store :: kvstate where
  "drifted_store = \<lparr>records = [(''asignatura:CS301'', [(''cod'', JStr ''CS301'')])],
                    index = [''asignatura:CS999'', ''asignatura:CS301'']\<rparr>"

definition store2 :: kvstate where
  "store2 = \<lparr>records = [(''asignatura:CS301'', [(''cod'', JStr ''CS301'')]),
                        (''asignatura:CS302'', [(''cod'', JStr ''CS302'')])],
             index = [''asignatura:CS302'', ''asignatura:CS301'']\<rparr>"

section \<open>Keys and association lists\<close>

lemma key_not_index: "ASIGNATURA_PREFIX @ s \<noteq> ASIGNATURAS_INDEX_KEY"
  by (simp add: ASIGNATURA_PREFIX_def ASIGNATURAS_INDEX_KEY_def)

lemma map_of_None_keys: "(map_of al k = None) = (k \<notin> fst ` set al)"
  by (simp add: map_of_eq_None_iff)

lemma kv_exists_key:
  "kv_exists (ASIGNATURA_PREFIX @ s) st
     = (if map_of (records st) (ASIGNATURA_PREFIX @ s) = None then 0 else 1)"
  by (simp add: kv_exists_def keyspace_def key_not_index map_of_None_keys)

lemma kv_exists_empty: "kv_exists k empty_store = 0"
  by (simp add: kv_exists_def keyspace_def empty_store_def)

lemma keys_update: "fst ` set (AList.update k v al) = insert k (fst ` set al)"
  by (simp add: AList.dom_update)

lemma keys_delete: "fst ` set (AList.delete k al) = fst ` set al - {k}"
proof -
  have "set (map fst (AList.delete k al)) = set (map fst al) - {k}"
    by (simp only: AList.delete_keys set_removeAll)
  then show ?thesis by simp
qed

lemma delete_absent_record: "map_of al k = None \<Longrightarrow> AList.delete k al = al"
  by (simp add: map_of_None_keys)

lemma kv_get_set: "kv_get k (kv_set k' v st) = (if k = k' then Some v else kv_get k st)"
  by (simp add: kv_get_def kv_set_def AList.update_conv')

lemma kv_get_sadd: "kv_get k (kv_sadd m st) = kv_get k st"
  by (simp add: kv_get_def kv_sadd_def)


section \<open>The handlers, case by case\<close>

lemma post_invalid:
  "\<not> required_present body \<Longrightarrow>
   post_asignaturas nid body st = (error_reply 400 ''Faltan campos obligatorios.'', st, [])"
  by (auto simp: required_present_def required_fields_def post_asignaturas_def)

lemma post_valid:
  "required_present body \<Longrightarrow>
   post_asignaturas nid body st =
     (case to_string (get_prop body ''cod'') of
        None \<Rightarrow> (Unanswered, st, [])
      | Some cod \<Rightarrow>
          if kv_exists (ASIGNATURA_PREFIX @ cod) st \<noteq> 0
          then (error_reply 409
                  (''La asignatura con el c'' @ [CHR 0xC3, CHR 0xB3] @ ''digo '' @
                   cod @ '' ya existe.''),
                st, [Exists (ASIGNATURA_PREFIX @ cod)])
          else
            case parseInt (get_prop body ''sem'') of
              None \<Rightarrow> (Unanswered, st, [Exists (ASIGNATURA_PREFIX @ cod)])
            | Some sem \<Rightarrow>
                (case parseInt (get_prop body ''uc'') of
                   None \<Rightarrow> (Unanswered, st, [Exists (ASIGNATURA_PREFIX @ cod)])
                 | Some uc \<Rightarrow>
                     (Reply 201 (Some (JObj (JSON_stringify (newAsignatura nid body sem uc)))),
                      kv_sadd (ASIGNATURA_PREFIX @ cod)
                        (kv_set (ASIGNATURA_PREFIX @ cod)
                           (JSON_stringify (newAsignatura nid body sem uc)) st),
                      [Exists (ASIGNATURA_PREFIX @ cod),
                       Multi [Set (ASIGNATURA_PREFIX @ cod)
                                (JSON_stringify (newAsignatura nid body sem uc)),
                              Sadd ASIGNATURAS_INDEX_KEY (ASIGNATURA_PREFIX @ cod)]])))"
  by (simp add: required_present_def required_fields_def post_asignaturas_def Let_def
      split: option.splits)

lemma post_conflict:
  "required_present body \<Longrightarrow> to_string (get_prop body ''cod'') = Some cod \<Longrightarrow>
   kv_exists (ASIGNATURA_PREFIX @ cod) st \<noteq> 0 \<Longrightarrow>
   post_asignaturas nid body st =
     (error_reply 409
        (''La asignatura con el c'' @ [CHR 0xC3, CHR 0xB3] @ ''digo '' @ cod @ '' ya existe.''),
      st, [Exists (ASIGNATURA_PREFIX @ cod)])"
  by (simp add: post_valid)

lemma post_created:
  "required_present body \<Longrightarrow> to_string (get_prop body ''cod'') = Some cod \<Longrightarrow>
   kv_exists (ASIGNATURA_PREFIX @ cod) st = 0 \<Longrightarrow>
   parseInt (get_prop body ''sem'') = Some sem \<Longrightarrow>
   parseInt (get_prop body ''uc'') = Some uc \<Longrightarrow>
   post_asignaturas nid body st =
     (Reply 201 (Some (JObj (JSON_stringify (newAsignatura nid body sem uc)))),
      kv_sadd (ASIGNATURA_PREFIX @ cod)
        (kv_set (ASIGNATURA_PREFIX @ cod) (JSON_stringify (newAsignatura nid body sem uc)) st),
      [Exists (ASIGNATURA_PREFIX @ cod),
       Multi [Set (ASIGNATURA_PREFIX @ cod) (JSON_stringify (newAsignatura nid body sem uc)),
              Sadd ASIGNATURAS_INDEX_KEY (ASIGNATURA_PREFIX @ cod)]])"
  by (simp add: post_valid)

text \<open>
  A request whose code, semester or credits has no string is left unanswered, and
  nothing is written.
\<close>

lemma post_unanswered:
  "required_present body \<Longrightarrow>
   to_string (get_prop body ''cod'') = None \<or>
   (\<exists>cod. to_string (get_prop body ''cod'') = Some cod \<and>
      kv_exists (ASIGNATURA_PREFIX @ cod) st = 0 \<and>
      (parseInt (get_prop body ''sem'') = None \<or> parseInt (get_prop body ''uc'') = None)) \<Longrightarrow>
   fst (post_asignaturas nid body st) = Unanswered \<and> fst (snd (post_asignaturas nid body st)) = st"
  by (auto simp: post_valid split: option.splits)

lemma post_state:
  "fst (snd (post_asignaturas nid body st)) = st \<or>
   (\<exists>cod r. fst (snd (post_asignaturas nid body st))
      = kv_sadd (ASIGNATURA_PREFIX @ cod) (kv_set (ASIGNATURA_PREFIX @ cod) r st))"
proof (cases "required_present body")
  case True
  then show ?thesis by (auto simp: post_valid split: option.splits)
next
  case False
  then show ?thesis by (simp add: post_invalid)
qed


lemma get_asignaturas_reply:
  "fst (get_asignaturas st)
     = Reply 200 (Some (JArr (map (\<lambda>k. null_or_obj (kv_get k st)) (kv_smembers st))))"
  by (simp add: get_asignaturas_def Let_def kv_mget_def kv_get_def kv_smembers_def comp_def)

lemma get_asignaturas_scan_reply:
  "fst (get_asignaturas_scan st)
     = Reply 200 (Some (JArr (map (\<lambda>k. null_or_obj (kv_get k st))
         (kv_scan (KEY_PREFIX @ ''*'') st))))"
  by (simp add: get_asignaturas_scan_def Let_def kv_mget_def kv_get_def comp_def)

lemma store1_eq:
  "store1 = \<lparr>records = [(''asignatura:CS301'', cs301_record)], index = [''asignatura:CS301'']\<rparr>"
  by code_simp

lemma store1_cs301: "kv_get (ASIGNATURA_PREFIX @ ''CS301'') store1 = Some cs301_record"
  by (simp add: store1_eq kv_get_def ASIGNATURA_PREFIX_def)

lemma cs301_present: "required_present cs301"
  by (simp add: required_present_def required_fields_def cs301_def get_prop_def)

lemma cs301_cod: "to_string (get_prop cs301 ''cod'') = Some ''CS301''"
  by (simp add: cs301_def get_prop_def)

section \<open>The index follows the records\<close>

lemma consistent_created: "consistent st \<Longrightarrow> consistent (kv_sadd k (kv_set k r st))"
  by (auto simp: consistent_def kv_sadd_def kv_set_def keys_update)

lemma consistent_post:
  "consistent st \<Longrightarrow> consistent (fst (snd (post_asignaturas nid body st)))"
  using post_state [of nid body st] by (auto simp: consistent_created)

lemma consistent_put:
  "consistent st \<Longrightarrow> consistent (fst (snd (put_asignatura cod body st)))"
proof (cases "kv_get (ASIGNATURA_PREFIX @ cod) st")
  case None
  assume "consistent st"
  with None show ?thesis by (simp add: put_asignatura_def)
next
  case (Some r)
  assume c: "consistent st"
  from Some have "ASIGNATURA_PREFIX @ cod \<in> fst ` set (records st)"
    using map_of_None_keys [of "records st" "ASIGNATURA_PREFIX @ cod"] by (simp add: kv_get_def)
  with c Some show ?thesis
    by (simp add: consistent_def put_asignatura_def Let_def kv_set_def keys_update insert_absorb)
qed

lemma consistent_delete:
  "consistent st \<Longrightarrow> consistent (fst (snd (delete_asignatura cod st)))"
  by (simp add: consistent_def delete_asignatura_def Let_def kv_del_def kv_srem_def keys_delete)

lemma consistent_step: "consistent st \<Longrightarrow> consistent (step st r)"
  by (cases r) (simp_all add: consistent_post consistent_put consistent_delete)

lemma consistent_foldl: "consistent st \<Longrightarrow> consistent (foldl step st reqs)"
  by (induction reqs arbitrary: st) (simp_all add: consistent_step)

lemma consistent_run: "consistent (run reqs)"
  unfolding run_def by (rule consistent_foldl) (simp add: consistent_def empty_store_def)

text \<open>
  Claim C1. Starting from the empty store, after any finite sequence of Create, Update
  and Delete requests served one after the other, a key is a member of the index set
  exactly when a record is stored under that key.
\<close>

theorem index_consistency:
  "(k \<in> set (kv_smembers (run reqs))) = (kv_get k (run reqs) \<noteq> None)"
  using consistent_run [of reqs]
  by (simp add: consistent_def kv_smembers_def kv_get_def map_of_None_keys)

section \<open>Create on a key that exists\<close>

text \<open>
  Claim C2. For a Create request that passes the check of the required properties, in
  a state where the key derived from its code already exists, Create answers 409 and
  writes nothing: the store is the same afterwards, no call it made is a write, and
  the record under the key is the one that was there.
\<close>

theorem create_existing_key:
  assumes "required_present body"
    and "to_string (get_prop body ''cod'') = Some cod"
    and "kv_exists (ASIGNATURA_PREFIX @ cod) st = 1"
  shows "status (fst (post_asignaturas nid body st)) = 409 \<and>
         fst (snd (post_asignaturas nid body st)) = st \<and>
         no_write (snd (snd (post_asignaturas nid body st))) \<and>
         kv_get (ASIGNATURA_PREFIX @ cod) (fst (snd (post_asignaturas nid body st)))
           = kv_get (ASIGNATURA_PREFIX @ cod) st"
  using assms by (simp add: post_conflict no_write_def error_reply_def)

text \<open>The second Create of \<open>cs301\<close> is answered 409 and leaves the first record as it was.\<close>

theorem create_existing_key_witness:
  "required_present cs301 \<and> to_string (get_prop cs301 ''cod'') = Some ''CS301'' \<and>
   kv_exists (ASIGNATURA_PREFIX @ ''CS301'') store1 = 1 \<and>
   status (fst (post_asignaturas ''n2'' cs301 store1)) = 409 \<and>
   fst (snd (post_asignaturas ''n2'' cs301 store1)) = store1 \<and>
   kv_get (ASIGNATURA_PREFIX @ ''CS301'') (fst (snd (post_asignaturas ''n2'' cs301 store1)))
     = Some cs301_record"
proof -
  have h: "kv_exists (ASIGNATURA_PREFIX @ ''CS301'') store1 = 1"
    by (simp add: kv_exists_key store1_cs301 [unfolded kv_get_def])
  from create_existing_key [OF cs301_present cs301_cod h, of "''n2''"] h cs301_present cs301_cod
    store1_cs301
  show ?thesis by simp
qed

section \<open>Delete of a code that has no record\<close>

text \<open>
  Claim C3, amended. When the key derived from the code holds no record, Delete answers
  404 and leaves the stored records as they were; the transaction still removes the key
  from the index set, so the whole store is unchanged exactly when the key was not a
  member, and a member without a record is no longer a member afterwards.
\<close>

theorem delete_missing:
  assumes "kv_get (ASIGNATURA_PREFIX @ cod) st = None"
  shows "status (fst (delete_asignatura cod st)) = 404 \<and>
         records (fst (snd (delete_asignatura cod st))) = records st \<and>
         index (fst (snd (delete_asignatura cod st)))
           = removeAll (ASIGNATURA_PREFIX @ cod) (index st) \<and>
         (if ASIGNATURA_PREFIX @ cod \<in> set (index st)
          then ASIGNATURA_PREFIX @ cod \<notin> set (index (fst (snd (delete_asignatura cod st))))
          else fst (snd (delete_asignatura cod st)) = st)"
  using assms
  by (simp add: delete_asignatura_def kv_get_def kv_del_def kv_srem_def Let_def error_reply_def
      delete_absent_record)

theorem delete_missing_witness:
  "kv_get (ASIGNATURA_PREFIX @ ''CS302'') store1 = None \<and>
   status (fst (delete_asignatura ''CS302'' store1)) = 404 \<and>
   fst (snd (delete_asignatura ''CS302'' store1)) = store1"
proof -
  have h: "kv_get (ASIGNATURA_PREFIX @ ''CS302'') store1 = None"
    by (simp add: store1_eq kv_get_def ASIGNATURA_PREFIX_def)
  have m: "ASIGNATURA_PREFIX @ ''CS302'' \<notin> set (index store1)"
    by (simp add: store1_eq ASIGNATURA_PREFIX_def)
  from delete_missing [OF h] h m show ?thesis by simp
qed

text \<open>
  The claim as stated fails: \<^verbatim>\<open>CS999\<close> has no record but its key is in the index; the
  Delete is answered 404 and the index is empty afterwards.
\<close>

theorem delete_missing_counterexample:
  "kv_get (ASIGNATURA_PREFIX @ ''CS999'') stale_store = None \<and>
   status (fst (delete_asignatura ''CS999'' stale_store)) = 404 \<and>
   index stale_store = [''asignatura:CS999''] \<and>
   index (fst (snd (delete_asignatura ''CS999'' stale_store))) = []"
  by (simp add: stale_store_def delete_asignatura_def kv_get_def kv_del_def kv_srem_def Let_def
      error_reply_def ASIGNATURA_PREFIX_def)

section \<open>Update merges\<close>













section \<open>Create: required properties and numeric coercion\<close>

lemma get_prop_delete: "get_prop (AList.delete f body) f = JUndefined"
  by (simp add: get_prop_def AList.delete_conv')

lemma not_required_present:
  "f \<in> set required_fields \<Longrightarrow> \<not> truthy (get_prop body f) \<Longrightarrow> \<not> required_present body"
  by (auto simp: required_present_def required_fields_def)

text \<open>
  Claim C10. A Create request in which one of the five required properties is present
  but falsy is answered 400 with the store unchanged and no call made on the client,
  and the outcome is the one of the same request with that property left out.
\<close>

theorem create_falsy_field:
  assumes "f \<in> set required_fields" and "map_of body f = Some v" and "\<not> truthy v"
  shows "post_asignaturas nid body st = (error_reply 400 ''Faltan campos obligatorios.'', st, []) \<and>
         post_asignaturas nid body st = post_asignaturas nid (AList.delete f body) st"
proof -
  from assms have "\<not> truthy (get_prop body f)" by (simp add: get_prop_def)
  with assms(1) have a: "\<not> required_present body" by (rule not_required_present)
  have "\<not> truthy (get_prop (AList.delete f body) f)" by (simp add: get_prop_delete)
  with assms(1) have b: "\<not> required_present (AList.delete f body)" by (rule not_required_present)
  from a b show ?thesis by (simp add: post_invalid)
qed

text \<open>A request with \<^verbatim>\<open>sem: 0\<close> is answered 400; nothing is read or written.\<close>

theorem create_falsy_field_witness:
  "''sem'' \<in> set required_fields \<and> map_of zero_sem ''sem'' = Some (JNum 0) \<and> \<not> truthy (JNum 0) \<and>
   status (fst (post_asignaturas ''n'' zero_sem empty_store)) = 400 \<and>
   fst (snd (post_asignaturas ''n'' zero_sem empty_store)) = empty_store \<and>
   snd (snd (post_asignaturas ''n'' zero_sem empty_store)) = []"
proof -
  have h1: "''sem'' \<in> set required_fields" by (simp add: required_fields_def)
  have h2: "map_of zero_sem ''sem'' = Some (JNum 0)" by (simp add: zero_sem_def)
  have h3: "\<not> truthy (JNum 0)" by simp
  from create_falsy_field [OF h1 h2 h3, of "''n''" empty_store] h1 h2
  show ?thesis by (simp add: error_reply_def)
qed

lemma takeWhile_Nil_iff: "(takeWhile P xs = []) = (case xs of [] \<Rightarrow> True | x # _ \<Rightarrow> \<not> P x)"
  by (cases xs) simp_all

lemma parseInt_string_NaN: "(parseInt_string str = NaN) = (\<not> leading_digit str)"
  by (auto simp: parseInt_string_def leading_digit_def Let_def takeWhile_Nil_iff
      split: prod.splits list.splits option.splits)

lemma parseInt_NaN: "parseInt v = Some x \<Longrightarrow> (x = NaN) = (\<not> numeric_coercible v)"
  by (auto simp: parseInt_def numeric_coercible_def parseInt_string_NaN)

lemma stored_new_sem:
  "get_prop (JSON_stringify (newAsignatura nid body x y)) ''sem'' = number_json x"
  by (simp add: JSON_stringify_def newAsignatura_def json_prop_def get_prop_def)

lemma stored_new_uc:
  "get_prop (JSON_stringify (newAsignatura nid body x y)) ''uc'' = number_json y"
  by (simp add: JSON_stringify_def newAsignatura_def json_prop_def get_prop_def)

lemma stored_new_id:
  "get_prop (JSON_stringify (newAsignatura nid body x y)) ''id'' = JStr nid"
  by (simp add: JSON_stringify_def newAsignatura_def json_prop_def get_prop_def)

lemma number_json_cases:
  "(x = NaN \<longrightarrow> number_json x = JNull) \<and>
   (x \<noteq> NaN \<longrightarrow> is_integer (number_json x) \<or>
      (x = PosInfinity \<or> x = NegInfinity) \<and> number_json x = JNull)"
  by (cases x) (simp_all add: is_integer_def number_json_def)

text \<open>Digits beyond the range of a double give \<^verbatim>\<open>Infinity\<close>, and too many for a double round.\<close>

lemma parseInt_infinite: "parseInt (JStr (replicate 310 CHR ''9'')) = Some PosInfinity"
  by code_simp

lemma parseInt_rounds: "parseInt (JStr ''9007199254740993'') = Some (Num 9007199254740992)"
  by code_simp

lemma parseInt_no_break_space:
  "parseInt (JStr [CHR 0xC2, CHR 0xA0, CHR ''1'', CHR ''2'']) = Some (Num 12)"
  by code_simp

lemma parseInt_exponent_form: "parseInt (JNum (10 ^ 21)) = Some (Num 1)"
  by code_simp

lemma parseInt_throws: "parseInt (JObj [(''toString'', JNum 1)]) = None"
  by code_simp

text \<open>
  Claim C6, amended. Create rejects no request for its semester or credits value not
  being numeric-coercible. When the required properties are truthy, the key is new and
  the code, the semester and the credits have strings, Create answers 201 and writes
  the record it sends. In that record each of the two properties is the integer
  \<^verbatim>\<open>parseInt\<close> returned, or \<^verbatim>\<open>null\<close> when it returned \<^verbatim>\<open>NaN\<close> or an infinity;
  it returns \<^verbatim>\<open>NaN\<close> exactly when the value is not numeric-coercible, so the property
  is \<^verbatim>\<open>null\<close> then, and an integer for a numeric-coercible value unless its digits
  exceed the range of a double.
\<close>

theorem create_coercion:
  assumes "required_present body"
    and "to_string (get_prop body ''cod'') = Some cod"
    and "kv_exists (ASIGNATURA_PREFIX @ cod) st = 0"
    and "parseInt (get_prop body ''sem'') = Some x"
    and "parseInt (get_prop body ''uc'') = Some y"
  shows "status (fst (post_asignaturas nid body st)) = 201 \<and>
         payload (fst (post_asignaturas nid body st))
           = Some (JObj (JSON_stringify (newAsignatura nid body x y))) \<and>
         kv_get (ASIGNATURA_PREFIX @ cod) (fst (snd (post_asignaturas nid body st)))
           = Some (JSON_stringify (newAsignatura nid body x y)) \<and>
         stored_prop cod ''sem'' (fst (snd (post_asignaturas nid body st)))
           = Some (number_json x) \<and>
         stored_prop cod ''uc'' (fst (snd (post_asignaturas nid body st)))
           = Some (number_json y) \<and>
         (x = NaN) = (\<not> numeric_coercible (get_prop body ''sem'')) \<and>
         (y = NaN) = (\<not> numeric_coercible (get_prop body ''uc'')) \<and>
         (\<not> numeric_coercible (get_prop body ''sem'') \<longrightarrow>
            stored_prop cod ''sem'' (fst (snd (post_asignaturas nid body st))) = Some JNull) \<and>
         (\<not> numeric_coercible (get_prop body ''uc'') \<longrightarrow>
            stored_prop cod ''uc'' (fst (snd (post_asignaturas nid body st))) = Some JNull) \<and>
         (numeric_coercible (get_prop body ''sem'') \<longrightarrow>
            is_integer (number_json x) \<or>
            (x = PosInfinity \<or> x = NegInfinity) \<and> number_json x = JNull) \<and>
         (numeric_coercible (get_prop body ''uc'') \<longrightarrow>
            is_integer (number_json y) \<or>
            (y = PosInfinity \<or> y = NegInfinity) \<and> number_json y = JNull)"
proof -
  have a: "(x = NaN) = (\<not> numeric_coercible (get_prop body ''sem''))"
    using assms(4) by (rule parseInt_NaN)
  have b: "(y = NaN) = (\<not> numeric_coercible (get_prop body ''uc''))"
    using assms(5) by (rule parseInt_NaN)
  from assms a b number_json_cases [of x] number_json_cases [of y] show ?thesis
    by (simp add: post_created kv_get_sadd kv_get_set stored_prop_def stored_new_sem
        stored_new_uc)
qed

text \<open>
  A request whose \<^verbatim>\<open>sem\<close> is the string \<^verbatim>\<open>abc\<close> and whose \<^verbatim>\<open>uc\<close> is the string
  \<^verbatim>\<open>4\<close>: it is answered 201, and the record stored has \<^verbatim>\<open>null\<close> and 4.
\<close>

theorem create_coercion_witness:
  "required_present abc_sem \<and> to_string (get_prop abc_sem ''cod'') = Some ''CS100'' \<and>
   kv_exists (ASIGNATURA_PREFIX @ ''CS100'') empty_store = 0 \<and>
   parseInt (get_prop abc_sem ''sem'') = Some NaN \<and>
   parseInt (get_prop abc_sem ''uc'') = Some (Num 4) \<and>
   status (fst (post_asignaturas ''n'' abc_sem empty_store)) = 201 \<and>
   stored_prop ''CS100'' ''sem'' (fst (snd (post_asignaturas ''n'' abc_sem empty_store)))
     = Some JNull \<and>
   stored_prop ''CS100'' ''uc'' (fst (snd (post_asignaturas ''n'' abc_sem empty_store)))
     = Some (JNum 4)"
proof -
  have h1: "required_present abc_sem"
    by (simp add: required_present_def required_fields_def abc_sem_def get_prop_def)
  have h2: "to_string (get_prop abc_sem ''cod'') = Some ''CS100''"
    by (simp add: abc_sem_def get_prop_def)
  have h3: "kv_exists (ASIGNATURA_PREFIX @ ''CS100'') empty_store = 0"
    by (rule kv_exists_empty)
  have h4: "parseInt (get_prop abc_sem ''sem'') = Some NaN" by code_simp
  have h5: "parseInt (get_prop abc_sem ''uc'') = Some (Num 4)" by code_simp
  from create_coercion [OF h1 h2 h3 h4 h5, of "''n''"] h1 h2 h3 h4 h5 show ?thesis
    by (simp add: number_json_def)
qed

text \<open>
  The claim as stated fails: the \<^verbatim>\<open>sem\<close> of this request is not numeric-coercible,
  and the request is answered 201 and its record stored.
\<close>

theorem create_coercion_counterexample:
  "\<not> numeric_coercible (get_prop abc_sem ''sem'') \<and>
   status (fst (post_asignaturas ''n'' abc_sem empty_store)) = 201 \<and>
   stored_prop ''CS100'' ''sem'' (fst (snd (post_asignaturas ''n'' abc_sem empty_store)))
     = Some JNull"
  by code_simp

section \<open>Create, then read\<close>

text \<open>
  Claim C7. For a Create request whose required properties are truthy, whose code,
  semester and credits have strings and whose key is new, Create answers 201 with the
  record it stored, whose \<^verbatim>\<open>id\<close> is the generated one, and a read of the request's
  code in the store it leaves answers 200 with the same record.
\<close>

theorem create_get_roundtrip:
  assumes "required_present body"
    and "to_string (get_prop body ''cod'') = Some cod"
    and "kv_exists (ASIGNATURA_PREFIX @ cod) st = 0"
    and "parseInt (get_prop body ''sem'') = Some x"
    and "parseInt (get_prop body ''uc'') = Some y"
  shows "fst (post_asignaturas nid body st)
           = Reply 201 (Some (JObj (JSON_stringify (newAsignatura nid body x y)))) \<and>
         fst (get_asignatura cod (fst (snd (post_asignaturas nid body st))))
           = Reply 200 (Some (JObj (JSON_stringify (newAsignatura nid body x y)))) \<and>
         payload (fst (get_asignatura cod (fst (snd (post_asignaturas nid body st)))))
           = payload (fst (post_asignaturas nid body st)) \<and>
         get_prop (JSON_stringify (newAsignatura nid body x y)) ''id'' = JStr nid"
  using assms
  by (simp add: post_created get_asignatura_def Let_def kv_get_sadd kv_get_set stored_new_id)

text \<open>
  The request with \<^verbatim>\<open>sem: "abc"\<close>: Create and the read that follows both send the
  record with \<^verbatim>\<open>null\<close> as its \<^verbatim>\<open>sem\<close>.
\<close>

theorem create_get_roundtrip_witness:
  "required_present abc_sem \<and> to_string (get_prop abc_sem ''cod'') = Some ''CS100'' \<and>
   kv_exists (ASIGNATURA_PREFIX @ ''CS100'') empty_store = 0 \<and>
   parseInt (get_prop abc_sem ''sem'') = Some NaN \<and>
   parseInt (get_prop abc_sem ''uc'') = Some (Num 4) \<and>
   payload (fst (get_asignatura ''CS100'' (fst (snd (post_asignaturas ''n'' abc_sem empty_store)))))
     = payload (fst (post_asignaturas ''n'' abc_sem empty_store)) \<and>
   status (fst (get_asignatura ''CS100'' (fst (snd (post_asignaturas ''n'' abc_sem empty_store)))))
     = 200 \<and>
   get_prop (JSON_stringify (newAsignatura ''n'' abc_sem NaN (Num 4))) ''sem'' = JNull"
proof -
  have h1: "required_present abc_sem"
    by (simp add: required_present_def required_fields_def abc_sem_def get_prop_def)
  have h2: "to_string (get_prop abc_sem ''cod'') = Some ''CS100''"
    by (simp add: abc_sem_def get_prop_def)
  have h3: "kv_exists (ASIGNATURA_PREFIX @ ''CS100'') empty_store = 0"
    by (rule kv_exists_empty)
  have h4: "parseInt (get_prop abc_sem ''sem'') = Some NaN" by code_simp
  have h5: "parseInt (get_prop abc_sem ''uc'') = Some (Num 4)" by code_simp
  from create_get_roundtrip [OF h1 h2 h3 h4 h5, of "''n''"] h1 h2 h3 h4 h5 show ?thesis
    by (simp add: stored_new_sem number_json_def)
qed

section \<open>Listing by the index\<close>

text \<open>
  Claim C8. The listing answers 200 with one element for each member of the index set,
  in the members' order: the record stored under the member, or \<^verbatim>\<open>null\<close> when no
  record is stored under it. It leaves the store as it was. When the index set is empty
  the answer is the empty array and the only call made is \<^verbatim>\<open>smembers\<close>: the
  stored records are not read.
\<close>

theorem listing_by_index:
  "fst (get_asignaturas st)
     = Reply 200 (Some (JArr (map (\<lambda>k. null_or_obj (kv_get k st)) (kv_smembers st)))) \<and>
   fst (snd (get_asignaturas st)) = st \<and>
   length (listed (fst (get_asignaturas st))) = length (kv_smembers st) \<and>
   (\<forall>i < length (kv_smembers st).
      listed (fst (get_asignaturas st)) ! i = null_or_obj (kv_get (kv_smembers st ! i) st) \<and>
      (kv_get (kv_smembers st ! i) st = None \<longrightarrow> listed (fst (get_asignaturas st)) ! i = JNull)) \<and>
   (kv_smembers st = [] \<longrightarrow>
      fst (get_asignaturas st) = Reply 200 (Some (JArr [])) \<and>
      snd (snd (get_asignaturas st)) = [Smembers ASIGNATURAS_INDEX_KEY] \<and>
      no_record_read (snd (snd (get_asignaturas st))))"
proof -
  have s: "fst (snd (get_asignaturas st)) = st"
    by (simp add: get_asignaturas_def Let_def)
  have e: "kv_smembers st = [] \<longrightarrow>
             snd (snd (get_asignaturas st)) = [Smembers ASIGNATURAS_INDEX_KEY]"
    by (simp add: get_asignaturas_def Let_def)
  from s e show ?thesis
    by (simp add: get_asignaturas_reply listed_def no_record_read_def null_or_obj_def)
qed

text \<open>
  An index of two members, the first without a record: the listing has \<^verbatim>\<open>null\<close>
  first. On the empty store the listing is empty after one \<^verbatim>\<open>smembers\<close>.
\<close>

theorem listing_by_index_witness:
  "listed (fst (get_asignaturas drifted_store)) = [JNull, JObj [(''cod'', JStr ''CS301'')]] \<and>
   kv_smembers empty_store = [] \<and>
   get_asignaturas empty_store
     = (Reply 200 (Some (JArr [])), empty_store, [Smembers ASIGNATURAS_INDEX_KEY])"
proof -
  have a: "kv_smembers drifted_store = [''asignatura:CS999'', ''asignatura:CS301'']"
    by (simp add: kv_smembers_def drifted_store_def)
  have b: "kv_get ''asignatura:CS999'' drifted_store = None"
    by (simp add: kv_get_def drifted_store_def)
  have c: "kv_get ''asignatura:CS301'' drifted_store = Some [(''cod'', JStr ''CS301'')]"
    by (simp add: kv_get_def drifted_store_def)
  have d: "kv_smembers empty_store = []"
    by (simp add: kv_smembers_def empty_store_def)
  from listing_by_index [of drifted_store]
  have "listed (fst (get_asignaturas drifted_store)) = [JNull, JObj [(''cod'', JStr ''CS301'')]]"
    by (simp add: a b c listed_def null_or_obj_def)
  moreover from listing_by_index [of empty_store] d
  have "get_asignaturas empty_store
          = (Reply 200 (Some (JArr [])), empty_store, [Smembers ASIGNATURAS_INDEX_KEY])"
    by (simp add: prod_eq_iff)
  ultimately show ?thesis using d by simp
qed

section \<open>Listing by the index and listing by a scan\<close>

lemma glob_star: "glob_match ''*'' s"
  by (induction s) simp_all

lemma glob_prefix_star:
  "CHR ''*'' \<notin> set p \<Longrightarrow> CHR ''?'' \<notin> set p \<Longrightarrow> glob_match (p @ ''*'') s = has_prefix p s"
proof (induction p arbitrary: s)
  case Nil
  show ?case by (simp add: has_prefix_def glob_star)
next
  case (Cons c p)
  then show ?case by (cases s) (auto simp: has_prefix_def)
qed

lemma scan_pattern: "glob_match (KEY_PREFIX @ ''*'') k = has_prefix KEY_PREFIX k"
  by (rule glob_prefix_star) (simp_all add: KEY_PREFIX_def)

lemma index_key_no_match: "\<not> has_prefix KEY_PREFIX ASIGNATURAS_INDEX_KEY"
  by (simp add: has_prefix_def KEY_PREFIX_def ASIGNATURAS_INDEX_KEY_def)

lemma has_prefix_key: "has_prefix KEY_PREFIX (ASIGNATURA_PREFIX @ s)"
  by (simp add: has_prefix_def KEY_PREFIX_def ASIGNATURA_PREFIX_def)

lemma prefixed_iff: "prefixed st = (\<forall>k \<in> fst ` set (records st). has_prefix KEY_PREFIX k)"
  by (auto simp: prefixed_def list_all_iff)

lemma kv_scan_keys:
  assumes "prefixed st"
  shows "kv_scan (KEY_PREFIX @ ''*'') st = map fst (records st)"
proof -
  have "filter (has_prefix KEY_PREFIX) (map fst (records st)) = map fst (records st)"
    using assms by (simp add: prefixed_iff filter_id_conv)
  then show ?thesis
    by (simp add: kv_scan_def keyspace_def scan_pattern [abs_def] index_key_no_match)
qed

text \<open>
  Claim C9. In a store where the index and the records name the same keys and every
  record key begins with the prefix, the listing by the index and the listing by a scan
  both answer 200 with the same set of elements; when no member and no key is repeated,
  with the same elements the same number of times.
\<close>

theorem listings_agree:
  assumes "consistent st" and "prefixed st"
  shows "status (fst (get_asignaturas st)) = 200 \<and>
         status (fst (get_asignaturas_scan st)) = 200 \<and>
         set (listed (fst (get_asignaturas st))) = set (listed (fst (get_asignaturas_scan st))) \<and>
         (well_formed st \<longrightarrow>
            mset (listed (fst (get_asignaturas st)))
              = mset (listed (fst (get_asignaturas_scan st))))"
proof -
  let ?f = "\<lambda>k. null_or_obj (kv_get k st)"
  have a: "listed (fst (get_asignaturas st)) = map ?f (index st)"
    by (simp add: get_asignaturas_reply listed_def kv_smembers_def)
  have b: "listed (fst (get_asignaturas_scan st)) = map ?f (map fst (records st))"
    by (simp add: get_asignaturas_scan_reply listed_def kv_scan_keys [OF assms(2)] comp_def)
  from assms(1) have s: "set (index st) = set (map fst (records st))"
    by (simp add: consistent_def)
  have m: "well_formed st \<longrightarrow> mset (index st) = mset (map fst (records st))"
    using s set_eq_iff_mset_eq_distinct [of "index st" "map fst (records st)"]
    unfolding well_formed_def by blast
  have sets: "set (map ?f (index st)) = set (map ?f (map fst (records st)))"
    using s by (simp only: set_map)
  have msets: "well_formed st \<longrightarrow>
                 mset (map ?f (index st)) = mset (map ?f (map fst (records st)))"
    using m by (auto simp only: mset_map)
  have c: "status (fst (get_asignaturas st)) = 200"
    by (simp add: get_asignaturas_reply)
  have d: "status (fst (get_asignaturas_scan st)) = 200"
    by (simp add: get_asignaturas_scan_reply)
  from sets msets c d show ?thesis
    unfolding a b by blast
qed

text \<open>Two records, indexed in the other order: the two listings hold the same two records.\<close>

theorem listings_agree_witness:
  "consistent store2 \<and> prefixed store2 \<and> well_formed store2 \<and>
   listed (fst (get_asignaturas store2))
     = [JObj [(''cod'', JStr ''CS302'')], JObj [(''cod'', JStr ''CS301'')]] \<and>
   mset (listed (fst (get_asignaturas_scan store2)))
     = mset [JObj [(''cod'', JStr ''CS302'')], JObj [(''cod'', JStr ''CS301'')]]"
proof -
  have h1: "consistent store2" by (auto simp: consistent_def store2_def)
  have h2: "prefixed store2"
    by (simp add: prefixed_def store2_def has_prefix_def KEY_PREFIX_def)
  have h3: "well_formed store2" by (simp add: well_formed_def store2_def)
  have l: "listed (fst (get_asignaturas store2))
             = [JObj [(''cod'', JStr ''CS302'')], JObj [(''cod'', JStr ''CS301'')]]"
    by (simp add: get_asignaturas_reply listed_def kv_smembers_def kv_get_def store2_def
        null_or_obj_def)
  from listings_agree [OF h1 h2] h3
  have "mset (listed (fst (get_asignaturas store2)))
          = mset (listed (fst (get_asignaturas_scan store2)))"
    by simp
  with l h1 h2 h3 show ?thesis by simp
qed

subsection \<open>The stores the handlers reach satisfy the conditions\<close>

lemma prefixed_set: "prefixed st \<Longrightarrow> prefixed (kv_set (ASIGNATURA_PREFIX @ s) v st)"
  by (auto simp: prefixed_iff kv_set_def keys_update has_prefix_key)

lemma prefixed_step: "prefixed st \<Longrightarrow> prefixed (step st r)"
proof (cases r)
  case (Create nid body)
  assume "prefixed st"
  then have "prefixed (kv_sadd k (kv_set (ASIGNATURA_PREFIX @ c) v st))" for k c v
    using prefixed_set [of st c v] by (simp add: prefixed_def kv_sadd_def)
  with \<open>prefixed st\<close> show ?thesis
    using post_state [of nid body st] by (auto simp: Create)
next
  case (Update cod body)
  assume "prefixed st"
  then show ?thesis
    using prefixed_set [of st cod]
    by (simp add: Update put_asignatura_def Let_def split: option.splits)
next
  case (Delete cod)
  assume "prefixed st"
  then show ?thesis
    by (auto simp: Delete delete_asignatura_def Let_def prefixed_iff kv_del_def kv_srem_def
        AList.delete_eq)
qed

lemma well_formed_step: "well_formed st \<Longrightarrow> well_formed (step st r)"
proof (cases r)
  case (Create nid body)
  assume "well_formed st"
  then show ?thesis
    using post_state [of nid body st]
    by (auto simp: Create well_formed_def kv_sadd_def kv_set_def AList.distinct_update)
next
  case (Update cod body)
  assume "well_formed st"
  then show ?thesis
    by (simp add: Update put_asignatura_def Let_def well_formed_def kv_set_def
        AList.distinct_update split: option.splits)
next
  case (Delete cod)
  assume "well_formed st"
  then show ?thesis
    by (simp add: Delete delete_asignatura_def Let_def well_formed_def kv_del_def kv_srem_def
        AList.distinct_delete distinct_removeAll)
qed

lemma reachable_run: "prefixed (run reqs) \<and> well_formed (run reqs)"
proof -
  have "prefixed st \<and> well_formed st \<Longrightarrow>
          prefixed (foldl step st reqs) \<and> well_formed (foldl step st reqs)" for st
    by (induction reqs arbitrary: st) (simp_all add: prefixed_step well_formed_step)
  then show ?thesis
    unfolding run_def by (simp add: prefixed_def well_formed_def empty_store_def)
qed

end
